theory Spec2Isabelle
  imports Main
begin

section \<open>JavaScript values and containers used by the signaling server\<close>

text \<open>
  Fields that a client sends (\<open>roomId\<close>, \<open>userId\<close>, \<open>userName\<close>, \<open>sdp\<close>, ...) and the
  properties the server hangs on a socket object are JavaScript values. The model keeps
  the two shapes the handlers distinguish: an absent field (\<open>undefined\<close>) and a string.
\<close>

datatype jsval = Undefined | Str string

text \<open>JavaScript truthiness, as tested by \<open>if (socket.roomId)\<close> and \<open>!socket.roomId\<close>.\<close>

fun truthy :: "jsval \<Rightarrow> bool" where
  "truthy Undefined = False"
| "truthy (Str s) = (s \<noteq> [])"

text \<open>
  A JavaScript \<open>Map\<close> keeps its entries in insertion order with unique keys: an
  association list. \<open>set\<close> on a present key replaces the value in place, on a new key
  it appends; \<open>delete\<close> drops the entry; \<open>get\<close> yields \<open>undefined\<close> (\<open>None\<close>) on a
  missing key.
\<close>

type_synonym ('k, 'v) jsmap = "('k \<times> 'v) list"

fun map_get :: "('k, 'v) jsmap \<Rightarrow> 'k \<Rightarrow> 'v option" where
  "map_get [] k = None"
| "map_get ((k', v) # m) k = (if k' = k then Some v else map_get m k)"

definition map_has :: "('k, 'v) jsmap \<Rightarrow> 'k \<Rightarrow> bool" where
  "map_has m k = (map_get m k \<noteq> None)"

fun map_set :: "('k, 'v) jsmap \<Rightarrow> 'k \<Rightarrow> 'v \<Rightarrow> ('k, 'v) jsmap" where
  "map_set [] k v = [(k, v)]"
| "map_set ((k', v') # m) k v = (if k' = k then (k, v) # m else (k', v') # map_set m k v)"

fun map_delete :: "('k, 'v) jsmap \<Rightarrow> 'k \<Rightarrow> ('k, 'v) jsmap" where
  "map_delete [] k = []"
| "map_delete ((k', v) # m) k = (if k' = k then map_delete m k else (k', v) # map_delete m k)"

text \<open>
  A JavaScript \<open>Set\<close> is likewise insertion ordered and duplicate free: a list.
  \<open>Array.from(set)\<close> is the list itself and \<open>size\<close> its length.
\<close>

definition set_add :: "'a list \<Rightarrow> 'a \<Rightarrow> 'a list" where
  "set_add xs x = (if x \<in> set xs then xs else xs @ [x])"

fun set_delete :: "'a list \<Rightarrow> 'a \<Rightarrow> 'a list" where
  "set_delete [] x = []"
| "set_delete (y # ys) x = (if y = x then set_delete ys x else y # set_delete ys x)"

definition set_size :: "'a list \<Rightarrow> nat" where
  "set_size xs = length xs"

section \<open>Server state\<close>

text \<open>
  The room objects created by \<open>POST /create-room\<close>. \<open>createdAt\<close> is a \<open>Date\<close>; the
  model keeps its millisecond value, which is what \<open><\<close> compares.
\<close>

record room =
  room_id :: jsval
  room_type :: jsval
  creator :: jsval
  participants :: "jsval list"
  createdAt :: int
  isActive :: bool

text \<open>
  A room object is shared: the \<open>rooms\<close> map holds a reference to it, and a
  \<open>join-room\<close> handler that is suspended at its \<open>await\<close> holds the reference it took
  before. So the objects live in a store and are named by references; an object that
  was deleted from \<open>rooms\<close> stays in the store for the handlers that still hold it.
\<close>

type_synonym ref = nat

type_synonym sid = string

text \<open>
  A Socket.IO socket object: the four properties the \<open>join-room\<close> handler stores on
  it (all \<open>undefined\<close> on a new connection) and the broadcast rooms it entered with
  \<open>socket.join\<close>. Its \<open>id\<close> is the key under which the connection is kept.
\<close>

record socket =
  sock_userId :: jsval
  sock_userName :: jsval
  sock_userAvatar :: jsval
  sock_roomId :: jsval
  sock_joined :: "jsval list"

definition new_socket :: socket where
  "new_socket = \<lparr>sock_userId = Undefined, sock_userName = Undefined,
     sock_userAvatar = Undefined, sock_roomId = Undefined, sock_joined = []\<rparr>"

text \<open>The data of a \<open>join-room\<close> event.\<close>

record join_data =
  j_roomId :: jsval
  j_userId :: jsval
  j_userName :: jsval
  j_userAvatar :: jsval

text \<open>
  A \<open>join-room\<close> handler suspended at \<open>await socket.join(roomId)\<close>: what its
  continuation still refers to, namely the socket, the event's data and the room object
  it read from \<open>rooms\<close> before the \<open>await\<close>.
\<close>

record pending_join =
  pj_socket :: sid
  pj_data :: join_data
  pj_room :: ref

text \<open>
  The two module-level maps \<open>rooms\<close> and \<open>userSockets\<close>, the store of room objects,
  the live connections that Socket.IO holds, and the suspended \<open>join-room\<close> handlers in
  the order in which they suspended.
\<close>

record state =
  rooms :: "(jsval, ref) jsmap"
  objects :: "(ref, room) jsmap"
  userSockets :: "(jsval, sid) jsmap"
  sockets :: "(sid, socket) jsmap"
  pending :: "pending_join list"

definition init :: state where
  "init = \<lparr>rooms = [], objects = [], userSockets = [], sockets = [], pending = []\<rparr>"

text \<open>\<open>rooms.get(roomId)\<close>: the room object registered under the id, if any.\<close>

definition rooms_get :: "state \<Rightarrow> jsval \<Rightarrow> room option" where
  "rooms_get s k =
    (case map_get (rooms s) k of
       None \<Rightarrow> None
     | Some a \<Rightarrow> map_get (objects s) a)"

text \<open>A reference that no object of the store has: where a new object is put.\<close>

fun new_ref :: "(ref, 'v) jsmap \<Rightarrow> ref" where
  "new_ref [] = 0"
| "new_ref ((a, v) # m) = max (Suc a) (new_ref m)"

section \<open>Messages and Socket.IO addressing\<close>

record participant_info =
  p_id :: jsval
  p_name :: jsval
  p_avatar :: jsval
  p_isOnline :: bool

text \<open>
  One constructor per event name the server emits, with the payload fields in source
  order. A timestamp is the clock reading the handler took (\<open>new Date()\<close>); its
  formatting by \<open>toISOString\<close> is not modelled.
\<close>

datatype message =
    RoomError string
  | RoomJoined jsval jsval "participant_info list" bool
  | UserJoined jsval jsval jsval nat
  | Offer jsval jsval jsval jsval int
  | Answer jsval jsval int
  | IceCandidate jsval jsval int
  | UserStatusChanged jsval jsval jsval int
  | UserLeft jsval jsval nat
  | Pong int
  | UserDisconnected jsval jsval string

text \<open>
  The three ways the source addresses an emit: \<open>socket.emit\<close> and
  \<open>io.to(socketId)\<close> reach one connection, \<open>socket.to(room)\<close> reaches the room
  without the sender, \<open>io.to(room)\<close> reaches the whole room.
\<close>

datatype target =
    ToSocket sid
  | ToRoomExcept jsval sid
  | ToRoom jsval

type_synonym emit = "target \<times> message"

text \<open>
  The connections an emit reaches, by Socket.IO's rules: a connection that is gone
  receives nothing, and a room reaches the connections that joined it and have not
  left. Socket.IO addresses a single connection as the room named by its socket id; the
  server only ever joins rooms named by keys of \<open>rooms\<close> and only ever addresses
  single connections by socket ids, and the model keeps these two kinds of name apart.
\<close>

fun in_room :: "jsval \<Rightarrow> sid \<times> socket \<Rightarrow> bool" where
  "in_room r (h, sk) = (r \<in> set (sock_joined sk))"

fun recipients :: "state \<Rightarrow> target \<Rightarrow> sid list" where
  "recipients s (ToSocket h) = (if map_has (sockets s) h then [h] else [])"
| "recipients s (ToRoomExcept r h) =
     map fst (filter (\<lambda>e. in_room r e \<and> fst e \<noteq> h) (sockets s))"
| "recipients s (ToRoom r) = map fst (filter (in_room r) (sockets s))"

section \<open>HTTP endpoint \<open>POST /create-room\<close>\<close>

text \<open>
  \<open>uuidv4().split('-')[0]\<close>: the characters of the generated identifier before its
  first hyphen. The identifier itself comes from the \<open>uuid\<close> package and is an input
  of the model.
\<close>

definition first_segment :: "string \<Rightarrow> string" where
  "first_segment u = takeWhile (\<lambda>c. c \<noteq> CHR ''-'') u"

definition make_room_id :: "string \<Rightarrow> jsval" where
  "make_room_id u = Str (''assma-'' @ first_segment u)"

record create_response =
  resp_roomId :: jsval
  resp_type :: jsval
  resp_createdAt :: int

text \<open>
  The destructuring default \<open>type = 'video'\<close> applies when the field is
  \<open>undefined\<close>. The handler reads the clock twice: for the stored \<open>createdAt\<close> and
  for the response. The object literal is a new object; \<open>rooms.set\<close> stores the
  reference to it under the room id, in place of any reference stored there before.
\<close>

definition create_room ::
  "state \<Rightarrow> jsval \<Rightarrow> jsval \<Rightarrow> string \<Rightarrow> int \<Rightarrow> int \<Rightarrow> state \<times> create_response" where
  "create_room s userId type0 uuid now now2 =
    (let type = (if type0 = Undefined then Str ''video'' else type0);
         roomId = make_room_id uuid;
         a = new_ref (objects s)
     in (s\<lparr>rooms := map_set (rooms s) roomId a,
           objects := map_set (objects s) a
              \<lparr>room_id = roomId, room_type = type, creator = userId,
               participants = [], createdAt = now, isActive = True\<rparr>\<rparr>,
         \<lparr>resp_roomId = roomId, resp_type = type, resp_createdAt = now2\<rparr>))"

section \<open>Socket event handlers\<close>

text \<open>
  Each handler takes the state, the id of the connection the event arrived on and the
  event's data, and returns the new state with the emits it made, in order. All
  handlers but \<open>join-room\<close> are synchronous and run to their end in one step. An event
  for a connection that Socket.IO does not hold is never dispatched; the model returns
  the state as it is. Log lines are left out.
\<close>

subsection \<open>\<open>join-room\<close>\<close>

text \<open>
  The handler is \<open>async\<close> and has one \<open>await\<close>, on \<open>socket.join(roomId)\<close>. It runs
  in two steps, and other handlers may run between them.

  The first step is the code up to the \<open>await\<close>: the two tests, each with its
  \<open>room-error\<close> and return, and the call of \<open>socket.join\<close>, which enters the
  broadcast room at once (the server uses Socket.IO's default in-memory adapter). When
  both tests pass, the handler suspends, holding the room object it read.
  \<open>rooms.has\<close> followed by \<open>rooms.get\<close> is one lookup here: the \<open>None\<close> branch is the
  \<open>!rooms.has(roomId)\<close> return. A reference in \<open>rooms\<close> always has its object in the
  store; the branch for a missing object does nothing.
\<close>

definition join_room :: "state \<Rightarrow> sid \<Rightarrow> join_data \<Rightarrow> state \<times> emit list" where
  "join_room s h d =
    (case map_get (sockets s) h of
       None \<Rightarrow> (s, [])
     | Some sk \<Rightarrow>
        (case map_get (rooms s) (j_roomId d) of
           None \<Rightarrow> (s, [(ToSocket h, RoomError ''Salle introuvable'')])
         | Some a \<Rightarrow>
            (case map_get (objects s) a of
               None \<Rightarrow> (s, [])
             | Some rm \<Rightarrow>
                if set_size (participants rm) \<ge> 4
                then (s, [(ToSocket h, RoomError ''Salle pleine'')])
                else
                  (s\<lparr>sockets := map_set (sockets s) h
                        (sk\<lparr>sock_joined := set_add (sock_joined sk) (j_roomId d)\<rparr>),
                      pending := pending s @
                        [\<lparr>pj_socket = h, pj_data = d, pj_room = a\<rparr>]\<rparr>,
                   []))))"

definition avatar_placeholder :: string where
  "avatar_placeholder = [CHR 0xF0, CHR 0x9F, CHR 0x91, CHR 0xA4]"

definition roster_entry :: "jsval \<Rightarrow> jsval \<Rightarrow> jsval \<Rightarrow> jsval \<Rightarrow> participant_info" where
  "roster_entry userId userName userAvatar pid =
    \<lparr>p_id = pid,
     p_name = (if pid = userId then userName else Str ''Participant''),
     p_avatar = (if pid = userId then userAvatar else Str avatar_placeholder),
     p_isOnline = True\<rparr>"

text \<open>
  The second step is the code after the \<open>await\<close>. It makes no test. It writes the
  four properties on the socket object (which nothing reads any more when the connection
  has been closed meanwhile), binds the user id to the socket id, and adds the user id to
  the participants of the room object the handler holds, whether or not \<open>rooms\<close> still
  refers to that object. The roster and the count are read from that object.
\<close>

definition join_room_resume :: "state \<Rightarrow> pending_join \<Rightarrow> state \<times> emit list" where
  "join_room_resume s p =
    (let h = pj_socket p; d = pj_data p; a = pj_room p
     in case map_get (objects s) a of
          None \<Rightarrow> (s, [])
        | Some rm \<Rightarrow>
           let socks' = (case map_get (sockets s) h of
                           None \<Rightarrow> sockets s
                         | Some sk \<Rightarrow>
                            map_set (sockets s) h
                              (sk\<lparr>sock_userId := j_userId d,
                                  sock_userName := j_userName d,
                                  sock_userAvatar := j_userAvatar d,
                                  sock_roomId := j_roomId d\<rparr>));
               rm' = rm\<lparr>participants := set_add (participants rm) (j_userId d)\<rparr>;
               roster = map (roster_entry (j_userId d) (j_userName d) (j_userAvatar d))
                            (participants rm')
           in (s\<lparr>objects := map_set (objects s) a rm',
                  userSockets := map_set (userSockets s) (j_userId d) h,
                  sockets := socks'\<rparr>,
               [(ToSocket h,
                   RoomJoined (j_roomId d) (room_type rm) roster (creator rm = j_userId d)),
                (ToRoomExcept (j_roomId d) h,
                   UserJoined (j_userId d) (j_userName d) (j_userAvatar d)
                     (set_size (participants rm')))]))"

text \<open>
  The continuation of the \<open>i\<close>-th suspended handler runs and the handler is done.
  With the default adapter the continuations run in the order in which the handlers
  suspended (\<open>i = 0\<close>); the model lets any of them run.
\<close>

definition resume_join :: "state \<Rightarrow> nat \<Rightarrow> state \<times> emit list" where
  "resume_join s i =
    (if i < length (pending s)
     then join_room_resume
            (s\<lparr>pending := take i (pending s) @ drop (Suc i) (pending s)\<rparr>)
            (pending s ! i)
     else (s, []))"

subsection \<open>Relay: \<open>offer\<close>, \<open>answer\<close>, \<open>ice-candidate\<close>\<close>

record offer_data =
  o_targetUserId :: jsval
  o_sdp :: jsval
  o_type :: jsval

record answer_data =
  a_targetUserId :: jsval
  a_sdp :: jsval

record ice_data =
  i_targetUserId :: jsval
  i_candidate :: jsval

text \<open>
  \<open>if (targetSocketId)\<close>: \<open>userSockets.get\<close> gave a value and that value, a socket id,
  is a non-empty string.
\<close>

fun bound_handle :: "sid option \<Rightarrow> sid option" where
  "bound_handle None = None"
| "bound_handle (Some t) = (if t = [] then None else Some t)"

definition offer :: "state \<Rightarrow> sid \<Rightarrow> offer_data \<Rightarrow> int \<Rightarrow> state \<times> emit list" where
  "offer s h d now =
    (case map_get (sockets s) h of
       None \<Rightarrow> (s, [])
     | Some sk \<Rightarrow>
        (case bound_handle (map_get (userSockets s) (o_targetUserId d)) of
           None \<Rightarrow> (s, [])
         | Some t \<Rightarrow>
            (s, [(ToSocket t,
                  Offer (sock_userId sk) (sock_userName sk) (o_sdp d) (o_type d) now)])))"

definition answer :: "state \<Rightarrow> sid \<Rightarrow> answer_data \<Rightarrow> int \<Rightarrow> state \<times> emit list" where
  "answer s h d now =
    (case map_get (sockets s) h of
       None \<Rightarrow> (s, [])
     | Some sk \<Rightarrow>
        (case bound_handle (map_get (userSockets s) (a_targetUserId d)) of
           None \<Rightarrow> (s, [])
         | Some t \<Rightarrow> (s, [(ToSocket t, Answer (sock_userId sk) (a_sdp d) now)])))"

definition ice_candidate :: "state \<Rightarrow> sid \<Rightarrow> ice_data \<Rightarrow> int \<Rightarrow> state \<times> emit list" where
  "ice_candidate s h d now =
    (case map_get (sockets s) h of
       None \<Rightarrow> (s, [])
     | Some sk \<Rightarrow>
        (case bound_handle (map_get (userSockets s) (i_targetUserId d)) of
           None \<Rightarrow> (s, [])
         | Some t \<Rightarrow> (s, [(ToSocket t, IceCandidate (sock_userId sk) (i_candidate d) now)])))"

subsection \<open>\<open>user-status\<close> and \<open>ping\<close>\<close>

record status_data =
  st_isMuted :: jsval
  st_isVideoOn :: jsval

definition user_status :: "state \<Rightarrow> sid \<Rightarrow> status_data \<Rightarrow> int \<Rightarrow> state \<times> emit list" where
  "user_status s h d now =
    (case map_get (sockets s) h of
       None \<Rightarrow> (s, [])
     | Some sk \<Rightarrow>
        (s, [(ToRoomExcept (sock_roomId sk) h,
              UserStatusChanged (sock_userId sk) (st_isMuted d) (st_isVideoOn d) now)]))"

definition ping :: "state \<Rightarrow> sid \<Rightarrow> int \<Rightarrow> state \<times> emit list" where
  "ping s h now =
    (case map_get (sockets s) h of
       None \<Rightarrow> (s, [])
     | Some sk \<Rightarrow> (s, [(ToSocket h, Pong now)]))"

subsection \<open>\<open>leave-room\<close>\<close>

text \<open>
  The room object is changed in place and, when its participant set is then empty, its
  entry is removed from \<open>rooms\<close>. Whether or not the room was found, the socket leaves
  the broadcast room and loses its \<open>roomId\<close> property.
\<close>

definition leave_room :: "state \<Rightarrow> sid \<Rightarrow> state \<times> emit list" where
  "leave_room s h =
    (case map_get (sockets s) h of
       None \<Rightarrow> (s, [])
     | Some sk \<Rightarrow>
        if \<not> truthy (sock_roomId sk) then (s, [])
        else
          let sk' = sk\<lparr>sock_joined := set_delete (sock_joined sk) (sock_roomId sk),
                       sock_roomId := Undefined\<rparr>;
              socks' = map_set (sockets s) h sk'
          in (case map_get (rooms s) (sock_roomId sk) of
                None \<Rightarrow> (s\<lparr>sockets := socks'\<rparr>, [])
              | Some a \<Rightarrow>
                 (case map_get (objects s) a of
                    None \<Rightarrow> (s\<lparr>sockets := socks'\<rparr>, [])
                  | Some rm \<Rightarrow>
                     let ps = set_delete (participants rm) (sock_userId sk)
                     in (s\<lparr>rooms := (if set_size ps = 0
                                      then map_delete (rooms s) (sock_roomId sk)
                                      else rooms s),
                            objects := map_set (objects s) a (rm\<lparr>participants := ps\<rparr>),
                            userSockets := map_delete (userSockets s) (sock_userId sk),
                            sockets := socks'\<rparr>,
                         [(ToRoomExcept (sock_roomId sk) h,
                           UserLeft (sock_userId sk) (sock_userName sk) (set_size ps))]))))"

subsection \<open>\<open>disconnect\<close>\<close>

text \<open>
  Socket.IO fires \<open>disconnect\<close> after it has taken the socket out of every broadcast
  room and out of its table of connections; the handler still reads the properties of
  the socket object.
\<close>

definition disconnect :: "state \<Rightarrow> sid \<Rightarrow> state \<times> emit list" where
  "disconnect s h =
    (case map_get (sockets s) h of
       None \<Rightarrow> (s, [])
     | Some sk \<Rightarrow>
        let socks' = map_delete (sockets s) h
        in if truthy (sock_roomId sk)
           then (case map_get (rooms s) (sock_roomId sk) of
                   None \<Rightarrow> (s\<lparr>sockets := socks'\<rparr>, [])
                 | Some a \<Rightarrow>
                    (case map_get (objects s) a of
                       None \<Rightarrow> (s\<lparr>sockets := socks'\<rparr>, [])
                     | Some rm \<Rightarrow>
                        let ps = set_delete (participants rm) (sock_userId sk)
                        in (s\<lparr>rooms := (if set_size ps = 0
                                         then map_delete (rooms s) (sock_roomId sk)
                                         else rooms s),
                               objects := map_set (objects s) a (rm\<lparr>participants := ps\<rparr>),
                               userSockets := map_delete (userSockets s) (sock_userId sk),
                               sockets := socks'\<rparr>,
                            [(ToRoom (sock_roomId sk),
                              UserDisconnected (sock_userId sk) (sock_userName sk)
                                ''disconnected'')])))
           else (s\<lparr>sockets := socks'\<rparr>, []))"

section \<open>Hourly sweep of inactive rooms\<close>

text \<open>
  The \<open>for ... of rooms.entries()\<close> loop, over the entries present when it starts;
  deleting the entry being visited does not disturb the iteration. The counter
  \<open>deleted\<close> only feeds a log line and is left out.
\<close>

definition stale :: "int \<Rightarrow> room \<Rightarrow> bool" where
  "stale now rm =
    (let hourAgo = now - 60 * 60 * 1000
     in createdAt rm < hourAgo \<and> set_size (participants rm) = 0)"

definition stale_ref :: "int \<Rightarrow> (ref, room) jsmap \<Rightarrow> ref \<Rightarrow> bool" where
  "stale_ref now objs a =
    (case map_get objs a of
       None \<Rightarrow> False
     | Some rm \<Rightarrow> stale now rm)"

fun sweep_loop ::
  "int \<Rightarrow> (ref, room) jsmap \<Rightarrow> (jsval \<times> ref) list \<Rightarrow> (jsval, ref) jsmap \<Rightarrow> (jsval, ref) jsmap" where
  "sweep_loop now objs [] m = m"
| "sweep_loop now objs ((roomId, a) # es) m =
     (if stale_ref now objs a then sweep_loop now objs es (map_delete m roomId)
      else sweep_loop now objs es m)"

definition sweep :: "state \<Rightarrow> int \<Rightarrow> state" where
  "sweep s now = s\<lparr>rooms := sweep_loop now (objects s) (rooms s) (rooms s)\<rparr>"

section \<open>Runs of the server\<close>

text \<open>
  A new connection gets a fresh socket object under the id Socket.IO generated for it:
  a non-empty string that no live connection and no suspended handler has. The events
  of a run are the requests to \<open>POST /create-room\<close>, the connection events, the socket
  events, the resumptions of suspended \<open>join-room\<close> handlers and the ticks of the sweep;
  \<open>GET /health\<close> reads and writes none of the state and is not an event here. Any
  event may come between the two steps of a \<open>join-room\<close>. A state is reachable when
  some run from the empty server ends in it.
\<close>

definition connect :: "state \<Rightarrow> sid \<Rightarrow> state" where
  "connect s h =
    (if h = [] \<or> map_has (sockets s) h \<or> h \<in> set (map pj_socket (pending s)) then s
     else s\<lparr>sockets := map_set (sockets s) h new_socket\<rparr>)"

datatype event =
    CreateRoom jsval jsval string int int
  | Connect sid
  | JoinRoom sid join_data
  | JoinResume nat
  | OfferEv sid offer_data int
  | AnswerEv sid answer_data int
  | IceCandidateEv sid ice_data int
  | UserStatus sid status_data int
  | LeaveRoom sid
  | Ping sid int
  | Disconnect sid
  | Sweep int

fun step :: "state \<Rightarrow> event \<Rightarrow> state" where
  "step s (CreateRoom userId type0 uuid now now2) = fst (create_room s userId type0 uuid now now2)"
| "step s (Connect h) = connect s h"
| "step s (JoinRoom h d) = fst (join_room s h d)"
| "step s (JoinResume i) = fst (resume_join s i)"
| "step s (OfferEv h d now) = fst (offer s h d now)"
| "step s (AnswerEv h d now) = fst (answer s h d now)"
| "step s (IceCandidateEv h d now) = fst (ice_candidate s h d now)"
| "step s (UserStatus h d now) = fst (user_status s h d now)"
| "step s (LeaveRoom h) = fst (leave_room s h)"
| "step s (Ping h now) = fst (ping s h now)"
| "step s (Disconnect h) = fst (disconnect s h)"
| "step s (Sweep now) = sweep s now"

fun run :: "state \<Rightarrow> event list \<Rightarrow> state" where
  "run s [] = s"
| "run s (e # es) = run (step s e) es"

inductive reachable :: "state \<Rightarrow> bool" where
  reachable_init: "reachable init"
| reachable_step: "reachable s \<Longrightarrow> reachable (step s e)"

section \<open>Well-formed states\<close>

text \<open>
  What every state of a run satisfies: \<open>rooms\<close> has unique keys, and socket ids, as
  keys, as values of \<open>userSockets\<close> and in suspended handlers, are non-empty strings.
\<close>

definition wf :: "state \<Rightarrow> bool" where
  "wf s =
    (distinct (map fst (rooms s)) \<and>
     (\<forall>e\<in>set (userSockets s). snd e \<noteq> []) \<and>
     (\<forall>e\<in>set (sockets s). fst e \<noteq> []) \<and>
     (\<forall>p\<in>set (pending s). pj_socket p \<noteq> []))"

section \<open>Example runs\<close>

text \<open>
  Concrete runs from the empty server, used to instantiate the theorems below.
  \<open>join_now\<close> is a \<open>join-room\<close> whose continuation runs before anything else.
\<close>

definition demo_room :: jsval where
  "demo_room = Str ''assma-ab12''"

definition demo_join :: "string \<Rightarrow> string \<Rightarrow> join_data" where
  "demo_join u n = \<lparr>j_roomId = demo_room, j_userId = Str u, j_userName = Str n,
     j_userAvatar = Str ''x''\<rparr>"

definition join_now :: "sid \<Rightarrow> join_data \<Rightarrow> event list" where
  "join_now h d = [JoinRoom h d, JoinResume 0]"

definition solo_run :: "event list" where
  "solo_run =
    [CreateRoom (Str ''u1'') Undefined ''ab12-cd'' 0 0, Connect ''a'', Connect ''b''] @
    join_now ''a'' (demo_join ''u1'' ''Alice'')"

definition pair_run :: "event list" where
  "pair_run = solo_run @ join_now ''b'' (demo_join ''u2'' ''Bob'')"

definition overfull_run :: "event list" where
  "overfull_run =
    [CreateRoom (Str ''u1'') (Str ''video'') ''ab12-cd'' 0 0,
     Connect ''a'', Connect ''b'', Connect ''c'', Connect ''d'', Connect ''e''] @
    join_now ''a'' (demo_join ''u1'' ''Alice'') @
    join_now ''b'' (demo_join ''u2'' ''Bob'') @
    join_now ''c'' (demo_join ''u3'' ''Carol'') @
    [JoinRoom ''d'' (demo_join ''u4'' ''Dan''), JoinRoom ''e'' (demo_join ''u5'' ''Eve''),
     JoinResume 0, JoinResume 0]"

definition two_rooms_run :: "event list" where
  "two_rooms_run =
    [CreateRoom (Str ''u1'') Undefined ''ab12-cd'' 0 0,
     CreateRoom (Str ''u2'') (Str ''audio'') ''ef34-cd'' 0 0,
     CreateRoom (Str ''u3'') Undefined ''0a0a-cd'' 7000000 7000000,
     Connect ''a''] @
    join_now ''a'' (demo_join ''u1'' ''Alice'')"

definition ghost_run :: "event list" where
  "ghost_run =
    [CreateRoom (Str ''u1'') Undefined ''ab12-cd'' 0 0, Connect ''a'', Connect ''c''] @
    join_now ''a'' (demo_join ''u1'' ''Alice'') @
    join_now ''a'' (demo_join ''u2'' ''Bob'') @
    [LeaveRoom ''a'']"

definition ghost_join_run :: "event list" where
  "ghost_join_run = ghost_run @ [JoinRoom ''c'' (demo_join ''u3'' ''Carol'')]"

definition rebind_run :: "event list" where
  "rebind_run =
    [CreateRoom (Str ''u1'') Undefined ''ab12-cd'' 0 0, Connect ''a'', Connect ''b''] @
    join_now ''a'' (demo_join ''u1'' ''Alice'') @
    join_now ''b'' (demo_join ''u1'' ''Alice'')"

definition closed_run :: "event list" where
  "closed_run =
    [CreateRoom (Str ''u1'') Undefined ''ab12-cd'' 0 0, Connect ''a'', Connect ''b''] @
    join_now ''a'' (demo_join ''u1'' ''Alice'') @
    join_now ''a'' (demo_join ''u2'' ''Bob'') @
    [Disconnect ''a'']"

section \<open>Facts about maps and sets\<close>

lemma map_get_set_same: "map_get (map_set m k v) k = Some v"
  by (induction m) auto

lemma map_get_delete_same: "map_get (map_delete m k) k = None"
  by (induction m) auto

lemma map_get_delete_other: "k' \<noteq> k \<Longrightarrow> map_get (map_delete m k) k' = map_get m k'"
  by (induction m) auto

lemma map_get_SomeD: "map_get m k = Some v \<Longrightarrow> (k, v) \<in> set m"
  by (induction m) (auto split: if_splits)

lemma map_delete_filter: "map_delete m k = filter (\<lambda>e. fst e \<noteq> k) m"
  by (induction m) auto

lemma keys_map_set:
  "map fst (map_set m k v) = (if k \<in> fst ` set m then map fst m else map fst m @ [k])"
  by (induction m) (force split: if_splits)+

lemma distinct_map_set: "distinct (map fst m) \<Longrightarrow> distinct (map fst (map_set m k v))"
  by (simp add: keys_map_set)

lemma distinct_map_delete: "distinct (map fst m) \<Longrightarrow> distinct (map fst (map_delete m k))"
  by (simp add: map_delete_filter distinct_map_filter)

lemma set_map_setD: "e \<in> set (map_set m k v) \<Longrightarrow> e = (k, v) \<or> e \<in> set m"
  by (induction m) (auto split: if_splits)

lemma set_map_deleteD: "e \<in> set (map_delete m k) \<Longrightarrow> e \<in> set m"
  by (induction m) (auto split: if_splits)

lemma sweep_loop_filter:
  "sweep_loop now objs es m =
     filter (\<lambda>e. fst e \<notin> fst ` {e' \<in> set es. stale_ref now objs (snd e')}) m"
proof (induction es arbitrary: m)
  case Nil
  show ?case by simp
next
  case (Cons e es)
  obtain k a where e: "e = (k, a)" by (cases e)
  let ?A = "{e' \<in> set es. stale_ref now objs (snd e')}"
  show ?case
  proof (cases "stale_ref now objs a")
    case True
    have B: "{e' \<in> set (e # es). stale_ref now objs (snd e')} = insert (k, a) ?A"
      using True e by auto
    have "sweep_loop now objs (e # es) m = sweep_loop now objs es (map_delete m k)"
      using True e by simp
    also have "\<dots> = filter (\<lambda>x. fst x \<noteq> k \<and> fst x \<notin> fst ` ?A) m"
      by (simp add: Cons.IH map_delete_filter)
    also have "\<dots> = filter (\<lambda>x. fst x \<notin> fst ` insert (k, a) ?A) m"
      by simp
    finally show ?thesis by (simp only: B)
  next
    case False
    have "{e' \<in> set (e # es). stale_ref now objs (snd e')} = ?A"
      using False e by auto
    then show ?thesis using False e Cons.IH by simp
  qed
qed

lemma sweep_loop_self:
  assumes "distinct (map fst m)"
  shows "sweep_loop now objs m m = filter (\<lambda>e. \<not> stale_ref now objs (snd e)) m"
proof -
  have "fst e \<in> fst ` {e' \<in> set m. stale_ref now objs (snd e')} \<longleftrightarrow>
      stale_ref now objs (snd e)"
    if "e \<in> set m" for e
  proof
    assume "fst e \<in> fst ` {e' \<in> set m. stale_ref now objs (snd e')}"
    then obtain e' where e': "e' \<in> set m" "stale_ref now objs (snd e')" "fst e' = fst e"
      by auto
    from assms e'(1) that e'(3) have "e' = e"
      by (metis eq_key_imp_eq_value prod.collapse)
    with e'(2) show "stale_ref now objs (snd e)" by simp
  next
    assume "stale_ref now objs (snd e)"
    with that show "fst e \<in> fst ` {e' \<in> set m. stale_ref now objs (snd e')}" by auto
  qed
  then show ?thesis
    by (simp add: sweep_loop_filter cong: filter_cong)
qed

lemma map_set_fresh: "map_get m k = None \<Longrightarrow> map_set m k v = m @ [(k, v)]"
  by (induction m) (auto split: if_splits)

lemma map_get_append_fresh:
  "map_get m k = Some v \<Longrightarrow> map_get (m @ m') k = Some v"
  by (induction m) (auto split: if_splits)

lemma filter_map_set_other:
  "filter (\<lambda>e. P e \<and> fst e \<noteq> h) (map_set m h v) = filter (\<lambda>e. P e \<and> fst e \<noteq> h) m"
  by (induction m) auto

lemma set_set_delete: "set (set_delete xs x) = set xs - {x}"
  by (induction xs) auto

lemma map_get_filter:
  "distinct (map fst m) \<Longrightarrow>
   map_get (filter P m) k =
     (case map_get m k of None \<Rightarrow> None | Some v \<Rightarrow> if P (k, v) then Some v else None)"
proof (induction m)
  case Nil
  show ?case by simp
next
  case (Cons e m)
  obtain k' v' where e: "e = (k', v')" by (cases e)
  have absent: "map_get (filter P m) k' = None"
  proof (cases "map_get (filter P m) k'")
    case None
    then show ?thesis .
  next
    case (Some v)
    then have "(k', v) \<in> set m" using map_get_SomeD [of "filter P m" k' v] by simp
    then have "k' \<in> fst ` set m" by force
    with Cons.prems e show ?thesis by simp
  qed
  show ?case
    using Cons e absent by (auto split: option.splits)
qed

lemma new_ref_above: "(a, v) \<in> set m \<Longrightarrow> a < new_ref m"
  by (induction m) auto

lemma new_ref_fresh: "map_get m (new_ref m) = None"
proof (cases "map_get m (new_ref m)")
  case None
  then show ?thesis .
next
  case (Some v)
  then have "new_ref m < new_ref m"
    using map_get_SomeD [of m "new_ref m" v] new_ref_above [of "new_ref m" v m] by simp
  then show ?thesis by simp
qed

section \<open>Every reachable state is well formed\<close>

lemma wf_init: "wf init"
  by (simp add: wf_def init_def)

lemma wf_create_room: "wf s \<Longrightarrow> wf (fst (create_room s u t uuid now now2))"
  unfolding wf_def create_room_def Let_def
  by (auto simp: distinct_map_set)

lemma wf_connect: "wf s \<Longrightarrow> wf (connect s h)"
  unfolding wf_def connect_def
  by (auto dest!: set_map_setD)

lemma wf_sockets_key: "wf s \<Longrightarrow> map_get (sockets s) h = Some sk \<Longrightarrow> h \<noteq> []"
  unfolding wf_def using map_get_SomeD [of "sockets s" h sk] by fastforce

lemma wf_bound_handle:
  "wf s \<Longrightarrow> map_get (userSockets s) u = Some t \<Longrightarrow> t \<noteq> []"
  unfolding wf_def using map_get_SomeD [of "userSockets s" u t] by fastforce

lemma wf_join_room:
  assumes "wf s"
  shows "wf (fst (join_room s h d))"
proof (cases "map_get (sockets s) h")
  case None
  then show ?thesis using assms by (simp add: join_room_def)
next
  case (Some sk)
  then have h: "h \<noteq> []"
    using assms by (rule wf_sockets_key [rotated])
  let ?s' = "s\<lparr>sockets := map_set (sockets s) h
                 (sk\<lparr>sock_joined := set_add (sock_joined sk) (j_roomId d)\<rparr>),
               pending := pending s @ [\<lparr>pj_socket = h, pj_data = d, pj_room =
                 the (map_get (rooms s) (j_roomId d))\<rparr>]\<rparr>"
  have "fst (join_room s h d) = s \<or> fst (join_room s h d) = ?s'"
    using Some by (auto simp: join_room_def split: option.splits)
  moreover have "wf ?s'"
    unfolding wf_def using assms h by (auto simp: wf_def dest!: set_map_setD)
  ultimately show ?thesis using assms by auto
qed

lemma wf_join_room_resume:
  assumes "wf s" and "pj_socket p \<noteq> []"
  shows "wf (fst (join_room_resume s p))"
proof (cases "map_get (objects s) (pj_room p)")
  case None
  then show ?thesis using assms by (simp add: join_room_resume_def Let_def)
next
  case (Some rm)
  have "\<forall>e\<in>set (case map_get (sockets s) (pj_socket p) of
                    None \<Rightarrow> sockets s
                  | Some sk \<Rightarrow> map_set (sockets s) (pj_socket p) (f sk)). fst e \<noteq> []" for f
    using assms by (auto simp: wf_def split: option.splits dest!: set_map_setD)
  then show ?thesis
    using assms Some
    by (auto simp: join_room_resume_def Let_def wf_def dest!: set_map_setD)
qed

lemma wf_resume_join:
  assumes "wf s"
  shows "wf (fst (resume_join s i))"
proof (cases "i < length (pending s)")
  case False
  then show ?thesis using assms by (simp add: resume_join_def)
next
  case True
  let ?s' = "s\<lparr>pending := take i (pending s) @ drop (Suc i) (pending s)\<rparr>"
  have "set (take i (pending s) @ drop (Suc i) (pending s)) \<subseteq> set (pending s)"
    by (auto dest: in_set_takeD in_set_dropD)
  then have "wf ?s'" using assms by (auto simp: wf_def)
  moreover have "pj_socket (pending s ! i) \<noteq> []"
    using assms True by (simp add: wf_def)
  ultimately show ?thesis
    using True by (simp add: resume_join_def wf_join_room_resume)
qed

lemma wf_leave_room:
  assumes "wf s"
  shows "wf (fst (leave_room s h))"
proof (cases "map_get (sockets s) h")
  case None
  then show ?thesis using assms by (simp add: leave_room_def)
next
  case (Some sk)
  then have h: "h \<noteq> []"
    using assms by (rule wf_sockets_key [rotated])
  show ?thesis
    using assms Some h
    by (auto simp: leave_room_def Let_def wf_def distinct_map_delete
        split: option.splits dest!: set_map_setD set_map_deleteD)
qed

lemma wf_disconnect:
  assumes "wf s"
  shows "wf (fst (disconnect s h))"
  using assms
  by (auto simp: disconnect_def Let_def wf_def distinct_map_delete
      split: option.splits dest!: set_map_setD set_map_deleteD)

lemma wf_sweep: "wf s \<Longrightarrow> wf (sweep s now)"
  by (simp add: wf_def sweep_def sweep_loop_filter distinct_map_filter)

lemma relay_state:
  "fst (offer s h od now) = s" "fst (answer s h ad now) = s"
  "fst (ice_candidate s h cd now) = s" "fst (user_status s h sd now) = s"
  "fst (ping s h now) = s"
  by (simp_all add: offer_def answer_def ice_candidate_def user_status_def ping_def
      split: option.splits)

lemma wf_step: "wf s \<Longrightarrow> wf (step s e)"
  by (cases e)
    (simp_all add: wf_create_room wf_connect wf_join_room wf_resume_join wf_leave_room
      wf_disconnect wf_sweep relay_state)

lemma reachable_wf: "reachable s \<Longrightarrow> wf s"
  by (induction rule: reachable.induct) (simp_all add: wf_init wf_step)

lemma reachable_run: "reachable s \<Longrightarrow> reachable (run s es)"
  by (induction es arbitrary: s) (simp_all add: reachable_step)

section \<open>The example runs, evaluated\<close>

lemmas handler_defs = create_room_def connect_def join_room_def join_room_resume_def
  resume_join_def leave_room_def disconnect_def offer_def answer_def ice_candidate_def
  sweep_def init_def new_socket_def make_room_id_def first_segment_def set_add_def
  set_size_def map_has_def Let_def join_now_def

lemma solo_state:
  "run init solo_run =
    \<lparr>rooms = [(demo_room, 0)],
     objects = [(0, \<lparr>room_id = demo_room, room_type = Str ''video'', creator = Str ''u1'',
        participants = [Str ''u1''], createdAt = 0, isActive = True\<rparr>)],
     userSockets = [(Str ''u1'', ''a'')],
     sockets = [(''a'', \<lparr>sock_userId = Str ''u1'', sock_userName = Str ''Alice'',
          sock_userAvatar = Str ''x'', sock_roomId = demo_room, sock_joined = [demo_room]\<rparr>),
        (''b'', new_socket)],
     pending = []\<rparr>"
  by (simp add: solo_run_def demo_join_def demo_room_def handler_defs)

lemma pair_state:
  "run init pair_run =
    \<lparr>rooms = [(demo_room, 0)],
     objects = [(0, \<lparr>room_id = demo_room, room_type = Str ''video'', creator = Str ''u1'',
        participants = [Str ''u1'', Str ''u2''], createdAt = 0, isActive = True\<rparr>)],
     userSockets = [(Str ''u1'', ''a''), (Str ''u2'', ''b'')],
     sockets = [(''a'', \<lparr>sock_userId = Str ''u1'', sock_userName = Str ''Alice'',
          sock_userAvatar = Str ''x'', sock_roomId = demo_room, sock_joined = [demo_room]\<rparr>),
        (''b'', \<lparr>sock_userId = Str ''u2'', sock_userName = Str ''Bob'',
          sock_userAvatar = Str ''x'', sock_roomId = demo_room, sock_joined = [demo_room]\<rparr>)],
     pending = []\<rparr>"
  by (simp add: pair_run_def solo_run_def demo_join_def demo_room_def handler_defs)

lemma two_rooms_state:
  "run init two_rooms_run =
    \<lparr>rooms = [(demo_room, 0), (Str ''assma-ef34'', 1), (Str ''assma-0a0a'', 2)],
     objects = [(0, \<lparr>room_id = demo_room, room_type = Str ''video'', creator = Str ''u1'',
          participants = [Str ''u1''], createdAt = 0, isActive = True\<rparr>),
        (1, \<lparr>room_id = Str ''assma-ef34'', room_type = Str ''audio'',
          creator = Str ''u2'', participants = [], createdAt = 0, isActive = True\<rparr>),
        (2, \<lparr>room_id = Str ''assma-0a0a'', room_type = Str ''video'',
          creator = Str ''u3'', participants = [], createdAt = 7000000, isActive = True\<rparr>)],
     userSockets = [(Str ''u1'', ''a'')],
     sockets = [(''a'', \<lparr>sock_userId = Str ''u1'', sock_userName = Str ''Alice'',
          sock_userAvatar = Str ''x'', sock_roomId = demo_room, sock_joined = [demo_room]\<rparr>)],
     pending = []\<rparr>"
  by (simp add: two_rooms_run_def demo_join_def demo_room_def handler_defs)

lemma rebind_state:
  "run init rebind_run =
    \<lparr>rooms = [(demo_room, 0)],
     objects = [(0, \<lparr>room_id = demo_room, room_type = Str ''video'', creator = Str ''u1'',
        participants = [Str ''u1''], createdAt = 0, isActive = True\<rparr>)],
     userSockets = [(Str ''u1'', ''b'')],
     sockets = [(''a'', \<lparr>sock_userId = Str ''u1'', sock_userName = Str ''Alice'',
          sock_userAvatar = Str ''x'', sock_roomId = demo_room, sock_joined = [demo_room]\<rparr>),
        (''b'', \<lparr>sock_userId = Str ''u1'', sock_userName = Str ''Alice'',
          sock_userAvatar = Str ''x'', sock_roomId = demo_room, sock_joined = [demo_room]\<rparr>)],
     pending = []\<rparr>"
  by (simp add: rebind_run_def demo_join_def demo_room_def handler_defs)

lemma closed_state:
  "run init closed_run =
    \<lparr>rooms = [(demo_room, 0)],
     objects = [(0, \<lparr>room_id = demo_room, room_type = Str ''video'', creator = Str ''u1'',
        participants = [Str ''u1''], createdAt = 0, isActive = True\<rparr>)],
     userSockets = [(Str ''u1'', ''a'')],
     sockets = [(''b'', new_socket)],
     pending = []\<rparr>"
  by (simp add: closed_run_def demo_join_def demo_room_def handler_defs)

lemma overfull_state:
  "run init overfull_run =
    \<lparr>rooms = [(demo_room, 0)],
     objects = [(0, \<lparr>room_id = demo_room, room_type = Str ''video'', creator = Str ''u1'',
        participants = [Str ''u1'', Str ''u2'', Str ''u3'', Str ''u4'', Str ''u5''],
        createdAt = 0, isActive = True\<rparr>)],
     userSockets = [(Str ''u1'', ''a''), (Str ''u2'', ''b''), (Str ''u3'', ''c''),
        (Str ''u4'', ''d''), (Str ''u5'', ''e'')],
     sockets = [(''a'', \<lparr>sock_userId = Str ''u1'', sock_userName = Str ''Alice'',
          sock_userAvatar = Str ''x'', sock_roomId = demo_room, sock_joined = [demo_room]\<rparr>),
        (''b'', \<lparr>sock_userId = Str ''u2'', sock_userName = Str ''Bob'',
          sock_userAvatar = Str ''x'', sock_roomId = demo_room, sock_joined = [demo_room]\<rparr>),
        (''c'', \<lparr>sock_userId = Str ''u3'', sock_userName = Str ''Carol'',
          sock_userAvatar = Str ''x'', sock_roomId = demo_room, sock_joined = [demo_room]\<rparr>),
        (''d'', \<lparr>sock_userId = Str ''u4'', sock_userName = Str ''Dan'',
          sock_userAvatar = Str ''x'', sock_roomId = demo_room, sock_joined = [demo_room]\<rparr>),
        (''e'', \<lparr>sock_userId = Str ''u5'', sock_userName = Str ''Eve'',
          sock_userAvatar = Str ''x'', sock_roomId = demo_room, sock_joined = [demo_room]\<rparr>)],
     pending = []\<rparr>"
  by (simp add: overfull_run_def demo_join_def demo_room_def handler_defs)

section \<open>The two steps of a join\<close>

text \<open>
  A \<open>join-room\<close> that passes both tests suspends as the last of the suspended
  handlers; when its continuation runs next, the two steps together are the handler
  run without interruption.
\<close>

lemma join_room_suspends:
  assumes "map_get (sockets s) h = Some sk"
    and "map_get (rooms s) (j_roomId d) = Some a"
    and "map_get (objects s) a = Some rm"
    and "set_size (participants rm) < 4"
  shows "join_room s h d =
    (s\<lparr>sockets := map_set (sockets s) h
          (sk\<lparr>sock_joined := set_add (sock_joined sk) (j_roomId d)\<rparr>),
        pending := pending s @ [\<lparr>pj_socket = h, pj_data = d, pj_room = a\<rparr>]\<rparr>, [])"
  using assms by (simp add: join_room_def)

lemma join_then_resume:
  assumes "map_get (sockets s) h = Some sk"
    and "map_get (rooms s) (j_roomId d) = Some a"
    and "map_get (objects s) a = Some rm"
    and "set_size (participants rm) < 4"
  shows "resume_join (fst (join_room s h d)) (length (pending s)) =
    join_room_resume
      (s\<lparr>sockets := map_set (sockets s) h
          (sk\<lparr>sock_joined := set_add (sock_joined sk) (j_roomId d)\<rparr>)\<rparr>)
      \<lparr>pj_socket = h, pj_data = d, pj_room = a\<rparr>"
  by (simp add: join_room_suspends [OF assms] resume_join_def)

lemma join_room_full:
  assumes "map_get (sockets s) h = Some sk"
    and "rooms_get s (j_roomId d) = Some rm"
    and "4 \<le> set_size (participants rm)"
  shows "join_room s h d = (s, [(ToSocket h, RoomError ''Salle pleine'')])"
  using assms by (auto simp: join_room_def rooms_get_def split: option.splits)

section \<open>Room capacity\<close>

text \<open>
  C1. The limit of four participants does not hold in every reachable state. The
  handler tests the size of the participant set before its \<open>await\<close> and adds the user
  id after it. With three participants in the room, two \<open>join-room\<close> events that are
  both dispatched before either continuation runs both pass the test, and the room ends
  with five participants.
\<close>

theorem room_capacity_exceeded:
  "reachable (run init overfull_run) \<and>
   rooms_get (run init overfull_run) demo_room =
     Some \<lparr>room_id = demo_room, room_type = Str ''video'', creator = Str ''u1'',
        participants = [Str ''u1'', Str ''u2'', Str ''u3'', Str ''u4'', Str ''u5''],
        createdAt = 0, isActive = True\<rparr> \<and>
   map_option (\<lambda>rm. set_size (participants rm)) (rooms_get (run init overfull_run) demo_room) =
     Some 5"
proof -
  have "reachable (run init overfull_run)"
    by (rule reachable_run [OF reachable_init])
  then show ?thesis
    by (simp add: overfull_state rooms_get_def set_size_def)
qed

section \<open>Rooms that become empty\<close>

text \<open>
  C2. When a \<open>leave-room\<close> or a \<open>disconnect\<close> on a connection that is in a room
  of the registry leaves that room's participant set empty after the connection's user id
  has been removed, the room is no longer in the registry when the handler returns.
\<close>

theorem empty_room_deleted:
  assumes "map_get (sockets s) h = Some sk"
    and "truthy (sock_roomId sk)"
    and "rooms_get s (sock_roomId sk) = Some rm"
    and "set_delete (participants rm) (sock_userId sk) = []"
  shows "map_get (rooms (fst (leave_room s h))) (sock_roomId sk) = None \<and>
         map_get (rooms (fst (disconnect s h))) (sock_roomId sk) = None"
  using assms
  by (auto simp: leave_room_def disconnect_def Let_def set_size_def map_get_delete_same
      rooms_get_def split: option.splits)

theorem empty_room_deleted_witness:
  "map_get (sockets (run init solo_run)) ''a'' \<noteq> None \<and>
   truthy (sock_roomId (the (map_get (sockets (run init solo_run)) ''a''))) \<and>
   map_option participants (rooms_get (run init solo_run) demo_room) =
     Some [sock_userId (the (map_get (sockets (run init solo_run)) ''a''))] \<and>
   rooms (fst (leave_room (run init solo_run) ''a'')) = [] \<and>
   rooms (fst (disconnect (run init solo_run) ''a'')) = [] \<and>
   map_get (rooms (fst (leave_room (run init solo_run) ''a''))) demo_room = None \<and>
   map_get (rooms (fst (disconnect (run init solo_run) ''a''))) demo_room = None"
proof -
  let ?sk = "\<lparr>sock_userId = Str ''u1'', sock_userName = Str ''Alice'',
          sock_userAvatar = Str ''x'', sock_roomId = demo_room, sock_joined = [demo_room]\<rparr>"
  let ?rm = "\<lparr>room_id = demo_room, room_type = Str ''video'', creator = Str ''u1'',
        participants = [Str ''u1''], createdAt = 0, isActive = True\<rparr>"
  have a: "map_get (sockets (run init solo_run)) ''a'' = Some ?sk"
    by (simp add: solo_state)
  have b: "truthy (sock_roomId ?sk)" by (simp add: demo_room_def)
  have c: "rooms_get (run init solo_run) (sock_roomId ?sk) = Some ?rm"
    by (simp add: solo_state rooms_get_def)
  have d: "set_delete (participants ?rm) (sock_userId ?sk) = []" by simp
  have e: "rooms (fst (leave_room (run init solo_run) ''a'')) = []"
    by (simp add: solo_state leave_room_def Let_def set_size_def demo_room_def)
  have f: "rooms (fst (disconnect (run init solo_run) ''a'')) = []"
    by (simp add: solo_state disconnect_def Let_def set_size_def demo_room_def)
  have g: "map_option participants (rooms_get (run init solo_run) demo_room) = Some [Str ''u1'']"
    by (simp add: solo_state rooms_get_def)
  show ?thesis
    using empty_room_deleted [OF a b c d] a b e f g by (simp add: solo_state)
qed

section \<open>Relay of signaling messages\<close>

text \<open>
  What the three relay handlers do in a reachable state: for a target user id that is
  bound in \<open>userSockets\<close>, exactly one emit, addressed to the bound socket id, with the
  sender's identity and the payload fields as they came; for a target that is not bound,
  no emit. The state is unchanged in both cases.
\<close>

lemma relay_emits:
  assumes "reachable s" and "map_get (sockets s) h = Some sk"
  shows "(\<forall>t. map_get (userSockets s) u = Some t \<longrightarrow>
            offer s h \<lparr>o_targetUserId = u, o_sdp = sdp, o_type = ty\<rparr> now =
              (s, [(ToSocket t, Offer (sock_userId sk) (sock_userName sk) sdp ty now)]) \<and>
            answer s h \<lparr>a_targetUserId = u, a_sdp = sdp\<rparr> now =
              (s, [(ToSocket t, Answer (sock_userId sk) sdp now)]) \<and>
            ice_candidate s h \<lparr>i_targetUserId = u, i_candidate = cand\<rparr> now =
              (s, [(ToSocket t, IceCandidate (sock_userId sk) cand now)]) \<and>
            set (recipients s (ToSocket t)) \<subseteq> {t}) \<and>
         (map_get (userSockets s) u = None \<longrightarrow>
            offer s h \<lparr>o_targetUserId = u, o_sdp = sdp, o_type = ty\<rparr> now = (s, []) \<and>
            answer s h \<lparr>a_targetUserId = u, a_sdp = sdp\<rparr> now = (s, []) \<and>
            ice_candidate s h \<lparr>i_targetUserId = u, i_candidate = cand\<rparr> now = (s, []))"
proof -
  have wf: "wf s" using assms(1) by (rule reachable_wf)
  have bound: "bound_handle (Some t) = Some t" if "map_get (userSockets s) u = Some t" for t
    using wf_bound_handle [OF wf that] by simp
  show ?thesis
    using assms(2) bound
    by (auto simp: offer_def answer_def ice_candidate_def)
qed

text \<open>
  C3. A bound target does not always get the message. \<open>disconnect\<close> removes only the
  binding of the user id the socket carried last. After connection \<open>a\<close> joined as
  \<open>u1\<close>, joined again as \<open>u2\<close> and was closed, \<open>u1\<close> is still bound to the socket id
  \<open>a\<close>; an \<open>offer\<close> for \<open>u1\<close> is emitted to that id, and no connection receives it.
\<close>

theorem relay_to_closed_connection:
  "reachable (run init closed_run) \<and>
   map_get (userSockets (run init closed_run)) (Str ''u1'') = Some ''a'' \<and>
   \<not> map_has (sockets (run init closed_run)) ''a'' \<and>
   map_get (sockets (run init closed_run)) ''b'' = Some new_socket \<and>
   offer (run init closed_run) ''b''
       \<lparr>o_targetUserId = Str ''u1'', o_sdp = Str ''S'', o_type = Str ''video''\<rparr> 5 =
     (run init closed_run,
      [(ToSocket ''a'', Offer Undefined Undefined (Str ''S'') (Str ''video'') 5)]) \<and>
   answer (run init closed_run) ''b'' \<lparr>a_targetUserId = Str ''u1'', a_sdp = Str ''S''\<rparr> 5 =
     (run init closed_run, [(ToSocket ''a'', Answer Undefined (Str ''S'') 5)]) \<and>
   ice_candidate (run init closed_run) ''b''
       \<lparr>i_targetUserId = Str ''u1'', i_candidate = Str ''C''\<rparr> 5 =
     (run init closed_run, [(ToSocket ''a'', IceCandidate Undefined (Str ''C'') 5)]) \<and>
   recipients (run init closed_run) (ToSocket ''a'') = []"
proof -
  have "reachable (run init closed_run)"
    by (rule reachable_run [OF reachable_init])
  then show ?thesis
    by (simp add: closed_state offer_def answer_def ice_candidate_def map_has_def
        new_socket_def)
qed

section \<open>Joining a room that does not exist\<close>

text \<open>
  C4. A \<open>join-room\<close> request naming a room id that is not in the registry is answered
  with the \<open>room-error\<close> "Salle introuvable" to the requesting connection alone, and
  the whole state (registry, room objects, bindings, sockets, suspended handlers) is
  returned as it was; the handler does not suspend.
\<close>

theorem join_unknown_room:
  assumes "map_get (sockets s) h = Some sk" and "\<not> map_has (rooms s) (j_roomId d)"
  shows "join_room s h d = (s, [(ToSocket h, RoomError ''Salle introuvable'')]) \<and>
         recipients s (ToSocket h) = [h]"
  using assms by (simp add: join_room_def map_has_def)

theorem join_unknown_room_witness:
  "map_get (sockets (run init solo_run)) ''b'' = Some new_socket \<and>
   \<not> map_has (rooms (run init solo_run)) (Str ''assma-ffff'') \<and>
   join_room (run init solo_run) ''b''
       \<lparr>j_roomId = Str ''assma-ffff'', j_userId = Str ''u2'', j_userName = Str ''Bob'',
        j_userAvatar = Str ''x''\<rparr> =
     (run init solo_run, [(ToSocket ''b'', RoomError ''Salle introuvable'')]) \<and>
   recipients (run init solo_run) (ToSocket ''b'') = [''b'']"
proof -
  let ?d = "\<lparr>j_roomId = Str ''assma-ffff'', j_userId = Str ''u2'', j_userName = Str ''Bob'',
        j_userAvatar = Str ''x''\<rparr>"
  have a: "map_get (sockets (run init solo_run)) ''b'' = Some new_socket"
    by (simp add: solo_state)
  have b: "\<not> map_has (rooms (run init solo_run)) (j_roomId ?d)"
    by (simp add: solo_state map_has_def demo_room_def)
  show ?thesis
    using join_unknown_room [OF a b] a b by simp
qed

section \<open>The hourly sweep\<close>

text \<open>
  C5. One run of the sweep at time \<open>now\<close>, from a reachable state, removes from the
  registry exactly the rooms whose participant set is empty and whose \<open>createdAt\<close> is
  earlier than \<open>now\<close> minus one hour (3600000 ms); the rooms that stay keep their order
  and their objects, a room with a participant always stays, and room objects,
  bindings, sockets and suspended handlers are not touched.
\<close>

theorem sweep_exact:
  assumes "reachable s"
  shows "rooms (sweep s now) =
           filter (\<lambda>e. case map_get (objects s) (snd e) of
                          None \<Rightarrow> True
                        | Some rm \<Rightarrow>
                           \<not> (participants rm = [] \<and> createdAt rm < now - 3600000))
             (rooms s) \<and>
         objects (sweep s now) = objects s \<and>
         userSockets (sweep s now) = userSockets s \<and>
         sockets (sweep s now) = sockets s \<and>
         pending (sweep s now) = pending s \<and>
         (\<forall>k. rooms_get (sweep s now) k =
            (case rooms_get s k of
               None \<Rightarrow> None
             | Some rm \<Rightarrow>
                if participants rm = [] \<and> createdAt rm < now - 3600000 then None
                else Some rm)) \<and>
         (\<forall>e\<in>set (rooms s). \<forall>rm. map_get (objects s) (snd e) = Some rm \<longrightarrow>
            participants rm \<noteq> [] \<longrightarrow> e \<in> set (rooms (sweep s now)))"
proof -
  let ?keep = "\<lambda>e. case map_get (objects s) (snd e) of
                      None \<Rightarrow> True
                    | Some rm \<Rightarrow> \<not> (participants rm = [] \<and> createdAt rm < now - 3600000)"
  have dist: "distinct (map fst (rooms s))"
    using reachable_wf [OF assms] by (simp add: wf_def)
  then have "sweep_loop now (objects s) (rooms s) (rooms s) =
      filter (\<lambda>e. \<not> stale_ref now (objects s) (snd e)) (rooms s)"
    by (rule sweep_loop_self)
  also have "\<dots> = filter ?keep (rooms s)"
    by (rule filter_cong)
      (auto simp: stale_ref_def stale_def set_size_def Let_def split: option.splits)
  finally have rooms: "rooms (sweep s now) = filter ?keep (rooms s)"
    by (simp add: sweep_def)
  have frame: "objects (sweep s now) = objects s" "userSockets (sweep s now) = userSockets s"
    "sockets (sweep s now) = sockets s" "pending (sweep s now) = pending s"
    by (simp_all add: sweep_def)
  have get: "rooms_get (sweep s now) k =
      (case rooms_get s k of
         None \<Rightarrow> None
       | Some rm \<Rightarrow>
          if participants rm = [] \<and> createdAt rm < now - 3600000 then None else Some rm)"
    for k
    by (auto simp: rooms_get_def rooms frame map_get_filter [OF dist] split: option.splits)
  have stay: "e \<in> set (rooms (sweep s now))"
    if "e \<in> set (rooms s)" "map_get (objects s) (snd e) = Some rm" "participants rm \<noteq> []"
    for e rm
    using that by (simp add: rooms)
  show ?thesis
    using rooms frame get stay by blast
qed

theorem sweep_exact_witness:
  "reachable (run init two_rooms_run) \<and>
   map (\<lambda>e. (fst e, map_option (\<lambda>rm. (participants rm, createdAt rm))
             (rooms_get (run init two_rooms_run) (fst e))))
     (rooms (run init two_rooms_run)) =
     [(demo_room, Some ([Str ''u1''], 0)), (Str ''assma-ef34'', Some ([], 0)),
      (Str ''assma-0a0a'', Some ([], 7000000))] \<and>
   rooms (sweep (run init two_rooms_run) 7200000) =
     [(demo_room, 0), (Str ''assma-0a0a'', 2)] \<and>
   rooms_get (sweep (run init two_rooms_run) 7200000) demo_room =
     rooms_get (run init two_rooms_run) demo_room \<and>
   rooms_get (sweep (run init two_rooms_run) 7200000) (Str ''assma-ef34'') = None \<and>
   rooms_get (sweep (run init two_rooms_run) 7200000) (Str ''assma-0a0a'') =
     rooms_get (run init two_rooms_run) (Str ''assma-0a0a'') \<and>
   objects (sweep (run init two_rooms_run) 7200000) = objects (run init two_rooms_run) \<and>
   userSockets (sweep (run init two_rooms_run) 7200000) = userSockets (run init two_rooms_run) \<and>
   sockets (sweep (run init two_rooms_run) 7200000) = sockets (run init two_rooms_run)"
proof -
  have r: "reachable (run init two_rooms_run)"
    by (rule reachable_run [OF reachable_init])
  have rooms: "rooms (sweep (run init two_rooms_run) 7200000) =
      [(demo_room, 0), (Str ''assma-0a0a'', 2)]"
    using sweep_exact [OF r, of 7200000] by (simp add: two_rooms_state)
  have frame: "objects (sweep (run init two_rooms_run) 7200000) = objects (run init two_rooms_run)"
    "userSockets (sweep (run init two_rooms_run) 7200000) = userSockets (run init two_rooms_run)"
    "sockets (sweep (run init two_rooms_run) 7200000) = sockets (run init two_rooms_run)"
    using sweep_exact [OF r, of 7200000] by simp_all
  show ?thesis
    using r rooms frame
    by (simp add: rooms_get_def two_rooms_state demo_room_def)
qed

section \<open>Leaving twice\<close>

text \<open>
  C6. A second \<open>leave-room\<close> on the same connection emits nothing and returns the
  state the first one produced; and a \<open>leave-room\<close> on a connection whose \<open>roomId\<close>
  property is not set (it never joined, or it has left) emits nothing and returns the
  state as it was.
\<close>

theorem leave_idempotent:
  "leave_room (fst (leave_room s h)) h = (fst (leave_room s h), []) \<and>
   (\<forall>sk. map_get (sockets s) h = Some sk \<and> \<not> truthy (sock_roomId sk) \<longrightarrow>
      leave_room s h = (s, []))"
proof -
  have "leave_room (fst (leave_room s h)) h = (fst (leave_room s h), [])"
  proof (cases "map_get (sockets s) h")
    case None
    then show ?thesis by (simp add: leave_room_def)
  next
    case (Some sk)
    show ?thesis
    proof (cases "truthy (sock_roomId sk)")
      case False
      then show ?thesis using Some by (simp add: leave_room_def)
    next
      case True
      let ?sk' = "sk\<lparr>sock_joined := set_delete (sock_joined sk) (sock_roomId sk),
                     sock_roomId := Undefined\<rparr>"
      have "map_get (sockets (fst (leave_room s h))) h = Some ?sk'"
        using Some True
        by (simp add: leave_room_def Let_def map_get_set_same split: option.splits)
      then show ?thesis
        by (simp add: leave_room_def [of "fst (leave_room s h)"])
    qed
  qed
  moreover have "leave_room s h = (s, [])"
    if "map_get (sockets s) h = Some sk" "\<not> truthy (sock_roomId sk)" for sk
    using that by (simp add: leave_room_def)
  ultimately show ?thesis by blast
qed

theorem leave_idempotent_witness:
  "leave_room (run init pair_run) ''a'' =
     (fst (leave_room (run init pair_run) ''a''),
      [(ToRoomExcept demo_room ''a'', UserLeft (Str ''u1'') (Str ''Alice'') 1)]) \<and>
   leave_room (fst (leave_room (run init pair_run) ''a'')) ''a'' =
     (fst (leave_room (run init pair_run) ''a''), []) \<and>
   map_get (sockets (run init solo_run)) ''b'' = Some new_socket \<and>
   \<not> truthy (sock_roomId new_socket) \<and>
   leave_room (run init solo_run) ''b'' = (run init solo_run, [])"
proof -
  have a: "map_get (sockets (run init solo_run)) ''b'' = Some new_socket"
    by (simp add: solo_state)
  have b: "\<not> truthy (sock_roomId new_socket)"
    by (simp add: new_socket_def)
  have c: "snd (leave_room (run init pair_run) ''a'') =
      [(ToRoomExcept demo_room ''a'', UserLeft (Str ''u1'') (Str ''Alice'') 1)]"
    by (simp add: pair_state leave_room_def Let_def set_size_def demo_room_def)
  show ?thesis
    using leave_idempotent [of "run init pair_run" "''a''"]
      leave_idempotent [of "run init solo_run" "''b''"] a b c
    by (simp add: prod_eq_iff)
qed

section \<open>Room ids of \<open>create-room\<close>\<close>

text \<open>
  C7 (as amended). \<open>create-room\<close> takes its room id from the generated identifier
  (the prefix "assma-" and the identifier's first segment) without looking into the
  registry. When that id is not yet a key of the registry, the response carries it, the
  new room with an empty participant set is appended, and every room that was there is
  still there unchanged.
\<close>

theorem create_room_fresh:
  assumes "\<not> map_has (rooms s) (make_room_id uuid)"
  shows "resp_roomId (snd (create_room s userId ty uuid now now2)) = make_room_id uuid \<and>
         rooms (fst (create_room s userId ty uuid now now2)) =
           rooms s @ [(make_room_id uuid, new_ref (objects s))] \<and>
         objects (fst (create_room s userId ty uuid now now2)) =
           objects s @ [(new_ref (objects s),
             \<lparr>room_id = make_room_id uuid,
              room_type = (if ty = Undefined then Str ''video'' else ty),
              creator = userId, participants = [], createdAt = now, isActive = True\<rparr>)] \<and>
         rooms_get (fst (create_room s userId ty uuid now now2)) (make_room_id uuid) =
           Some \<lparr>room_id = make_room_id uuid,
              room_type = (if ty = Undefined then Str ''video'' else ty),
              creator = userId, participants = [], createdAt = now, isActive = True\<rparr> \<and>
         (\<forall>k rm. rooms_get s k = Some rm \<longrightarrow>
            rooms_get (fst (create_room s userId ty uuid now now2)) k = Some rm) \<and>
         userSockets (fst (create_room s userId ty uuid now now2)) = userSockets s \<and>
         sockets (fst (create_room s userId ty uuid now now2)) = sockets s \<and>
         pending (fst (create_room s userId ty uuid now now2)) = pending s"
proof -
  let ?s' = "fst (create_room s userId ty uuid now now2)"
  let ?rm = "\<lparr>room_id = make_room_id uuid,
              room_type = (if ty = Undefined then Str ''video'' else ty),
              creator = userId, participants = [], createdAt = now, isActive = True\<rparr>"
  have none: "map_get (rooms s) (make_room_id uuid) = None"
    using assms by (simp add: map_has_def)
  have rooms: "rooms ?s' = rooms s @ [(make_room_id uuid, new_ref (objects s))]"
    by (simp add: create_room_def Let_def map_set_fresh [OF none])
  have objs: "objects ?s' = objects s @ [(new_ref (objects s), ?rm)]"
    by (simp add: create_room_def Let_def map_set_fresh [OF new_ref_fresh])
  have new: "rooms_get ?s' (make_room_id uuid) = Some ?rm"
    by (simp add: rooms_get_def create_room_def Let_def map_get_set_same)
  have old: "rooms_get ?s' k = Some rm" if "rooms_get s k = Some rm" for k rm
    using that
    by (auto simp: rooms_get_def rooms objs map_get_append_fresh split: option.splits)
  have rest: "resp_roomId (snd (create_room s userId ty uuid now now2)) = make_room_id uuid"
    "userSockets ?s' = userSockets s" "sockets ?s' = sockets s" "pending ?s' = pending s"
    by (simp_all add: create_room_def Let_def)
  show ?thesis
    using rooms objs new old rest by blast
qed

theorem create_room_fresh_witness:
  "\<not> map_has (rooms (run init solo_run)) (make_room_id ''ef34-cd'') \<and>
   resp_roomId (snd (create_room (run init solo_run) (Str ''u2'') Undefined ''ef34-cd'' 5 6)) =
     Str ''assma-ef34'' \<and>
   rooms (fst (create_room (run init solo_run) (Str ''u2'') Undefined ''ef34-cd'' 5 6)) =
     rooms (run init solo_run) @ [(Str ''assma-ef34'', 1)] \<and>
   rooms_get (fst (create_room (run init solo_run) (Str ''u2'') Undefined ''ef34-cd'' 5 6))
       (Str ''assma-ef34'') =
     Some \<lparr>room_id = Str ''assma-ef34'', room_type = Str ''video'',
          creator = Str ''u2'', participants = [], createdAt = 5, isActive = True\<rparr> \<and>
   rooms_get (run init solo_run) demo_room =
     rooms_get (fst (create_room (run init solo_run) (Str ''u2'') Undefined ''ef34-cd'' 5 6))
       demo_room \<and>
   rooms_get (run init solo_run) demo_room \<noteq> None"
proof -
  have a: "\<not> map_has (rooms (run init solo_run)) (make_room_id ''ef34-cd'')"
    by (simp add: solo_state map_has_def make_room_id_def first_segment_def demo_room_def)
  have b: "make_room_id ''ef34-cd'' = Str ''assma-ef34''"
    by (simp add: make_room_id_def first_segment_def)
  have c: "new_ref (objects (run init solo_run)) = 1"
    by (simp add: solo_state)
  have d: "rooms_get (run init solo_run) demo_room = Some (snd (hd (objects (run init solo_run))))"
    by (simp add: solo_state rooms_get_def)
  from create_room_fresh [OF a, of "Str ''u2''" Undefined 5 6]
  have "rooms_get (run init solo_run) demo_room =
      rooms_get (fst (create_room (run init solo_run) (Str ''u2'') Undefined ''ef34-cd'' 5 6))
        demo_room"
    using d by simp
  then show ?thesis
    using create_room_fresh [OF a, of "Str ''u2''" Undefined 5 6] a b c d by simp
qed

text \<open>
  The id need not be fresh: a second identifier with the same first segment gives the
  same room id, and the room registered under it, with its participant, is replaced.
\<close>

theorem create_room_collision:
  "map_has (rooms (run init solo_run))
     (resp_roomId (snd (create_room (run init solo_run) (Str ''u9'') (Str ''audio'') ''ab12-zz'' 5 6))) \<and>
   rooms_get (run init solo_run) demo_room =
     Some \<lparr>room_id = demo_room, room_type = Str ''video'', creator = Str ''u1'',
        participants = [Str ''u1''], createdAt = 0, isActive = True\<rparr> \<and>
   rooms_get (fst (create_room (run init solo_run) (Str ''u9'') (Str ''audio'') ''ab12-zz'' 5 6))
       demo_room =
     Some \<lparr>room_id = demo_room, room_type = Str ''audio'', creator = Str ''u9'',
        participants = [], createdAt = 5, isActive = True\<rparr>"
  by (simp add: solo_state create_room_def Let_def make_room_id_def first_segment_def
      demo_room_def map_has_def rooms_get_def)

section \<open>A successful join\<close>

text \<open>
  What the continuation of a \<open>join-room\<close> does: the user id is bound to the socket id
  and is in the participants of the room object the handler holds; \<open>room-joined\<close>, with
  the roster and with \<open>isCreator\<close> true exactly when the room's creator equals the user
  id, is emitted to the joining connection; and \<open>user-joined\<close>, with the size of the
  participant set after the add, is emitted to the broadcast room without the sender,
  which reaches the other live connections that entered that broadcast room and have not
  left it.
\<close>

lemma join_resume_effects:
  assumes "map_get (objects s) (pj_room p) = Some rm"
  shows "map_get (userSockets (fst (join_room_resume s p))) (j_userId (pj_data p)) =
           Some (pj_socket p) \<and>
         map_get (objects (fst (join_room_resume s p))) (pj_room p) =
           Some (rm\<lparr>participants := set_add (participants rm) (j_userId (pj_data p))\<rparr>) \<and>
         rooms (fst (join_room_resume s p)) = rooms s \<and>
         snd (join_room_resume s p) =
           [(ToSocket (pj_socket p),
             RoomJoined (j_roomId (pj_data p)) (room_type rm)
               (map (roster_entry (j_userId (pj_data p)) (j_userName (pj_data p))
                       (j_userAvatar (pj_data p)))
                  (set_add (participants rm) (j_userId (pj_data p))))
               (creator rm = j_userId (pj_data p))),
            (ToRoomExcept (j_roomId (pj_data p)) (pj_socket p),
             UserJoined (j_userId (pj_data p)) (j_userName (pj_data p))
               (j_userAvatar (pj_data p))
               (set_size (set_add (participants rm) (j_userId (pj_data p)))))] \<and>
         recipients (fst (join_room_resume s p))
             (ToRoomExcept (j_roomId (pj_data p)) (pj_socket p)) =
           map fst (filter (\<lambda>e. in_room (j_roomId (pj_data p)) e \<and> fst e \<noteq> pj_socket p)
             (sockets s))"
  using assms
  by (simp add: join_room_resume_def Let_def map_get_set_same filter_map_set_other
      split: option.splits)

lemma ghost_join_state:
  "run init ghost_join_run =
    \<lparr>rooms = [(demo_room, 0)],
     objects = [(0, \<lparr>room_id = demo_room, room_type = Str ''video'', creator = Str ''u1'',
        participants = [Str ''u1''], createdAt = 0, isActive = True\<rparr>)],
     userSockets = [(Str ''u1'', ''a'')],
     sockets = [(''a'', \<lparr>sock_userId = Str ''u2'', sock_userName = Str ''Bob'',
          sock_userAvatar = Str ''x'', sock_roomId = Undefined, sock_joined = []\<rparr>),
        (''c'', \<lparr>sock_userId = Undefined, sock_userName = Undefined,
          sock_userAvatar = Undefined, sock_roomId = Undefined, sock_joined = [demo_room]\<rparr>)],
     pending = [\<lparr>pj_socket = ''c'', pj_data = demo_join ''u3'' ''Carol'', pj_room = 0\<rparr>]\<rparr>"
  by (simp add: ghost_join_run_def ghost_run_def demo_join_def demo_room_def handler_defs)

text \<open>
  C8. Not every other member of the room gets \<open>user-joined\<close>. \<open>leave-room\<close> removes
  only the user id the socket carried last, and takes the socket out of the broadcast
  room. After connection \<open>a\<close> joined as \<open>u1\<close>, joined again as \<open>u2\<close> and left, \<open>u1\<close> is
  still a participant, still bound to the live connection \<open>a\<close>, and listed in the roster
  sent to the next joiner \<open>c\<close>; the \<open>user-joined\<close> for \<open>c\<close> reaches nobody.
\<close>

theorem join_broadcast_misses_participant:
  "reachable (run init ghost_join_run) \<and>
   pending (run init ghost_join_run) =
     [\<lparr>pj_socket = ''c'', pj_data = demo_join ''u3'' ''Carol'', pj_room = 0\<rparr>] \<and>
   rooms_get (fst (resume_join (run init ghost_join_run) 0)) demo_room =
     Some \<lparr>room_id = demo_room, room_type = Str ''video'', creator = Str ''u1'',
        participants = [Str ''u1'', Str ''u3''], createdAt = 0, isActive = True\<rparr> \<and>
   map_get (userSockets (fst (resume_join (run init ghost_join_run) 0))) (Str ''u1'') =
     Some ''a'' \<and>
   map_has (sockets (fst (resume_join (run init ghost_join_run) 0))) ''a'' \<and>
   snd (resume_join (run init ghost_join_run) 0) =
     [(ToSocket ''c'',
       RoomJoined demo_room (Str ''video'')
         [\<lparr>p_id = Str ''u1'', p_name = Str ''Participant'',
           p_avatar = Str avatar_placeholder, p_isOnline = True\<rparr>,
          \<lparr>p_id = Str ''u3'', p_name = Str ''Carol'', p_avatar = Str ''x'', p_isOnline = True\<rparr>]
         False),
      (ToRoomExcept demo_room ''c'', UserJoined (Str ''u3'') (Str ''Carol'') (Str ''x'') 2)] \<and>
   recipients (fst (resume_join (run init ghost_join_run) 0)) (ToRoomExcept demo_room ''c'') = []"
proof -
  have "reachable (run init ghost_join_run)"
    by (rule reachable_run [OF reachable_init])
  then show ?thesis
    by (simp add: ghost_join_state resume_join_def join_room_resume_def demo_join_def
        demo_room_def set_size_def set_add_def Let_def roster_entry_def map_has_def
        rooms_get_def)
qed

section \<open>Disconnect of a superseded connection\<close>

text \<open>
  C9. Let connection \<open>h1\<close> be in a room of the registry under a user id that is
  by now bound to another live connection \<open>h2\<close>. When \<open>h1\<close> disconnects, the user
  id is removed from \<open>userSockets\<close> and from the participant set of \<open>h1\<close>'s room (the
  room itself goes when that set is then empty), although \<open>h2\<close> stays connected; from
  then on an \<open>offer\<close>, \<open>answer\<close> or \<open>ice-candidate\<close> addressed to that user id makes
  no emit and changes nothing.
\<close>

theorem stale_disconnect_unbinds:
  assumes "map_get (sockets s) h1 = Some sk1"
    and "truthy (sock_roomId sk1)"
    and "rooms_get s (sock_roomId sk1) = Some rm"
    and "map_get (userSockets s) (sock_userId sk1) = Some h2"
    and "h2 \<noteq> h1"
    and "map_has (sockets s) h2"
  shows "map_get (userSockets (fst (disconnect s h1))) (sock_userId sk1) = None \<and>
         (\<forall>rm'. rooms_get (fst (disconnect s h1)) (sock_roomId sk1) = Some rm' \<longrightarrow>
            sock_userId sk1 \<notin> set (participants rm')) \<and>
         map_has (sockets (fst (disconnect s h1))) h2 \<and>
         (\<forall>h sdp ty cand now.
            offer (fst (disconnect s h1)) h
                \<lparr>o_targetUserId = sock_userId sk1, o_sdp = sdp, o_type = ty\<rparr> now =
              (fst (disconnect s h1), []) \<and>
            answer (fst (disconnect s h1)) h
                \<lparr>a_targetUserId = sock_userId sk1, a_sdp = sdp\<rparr> now =
              (fst (disconnect s h1), []) \<and>
            ice_candidate (fst (disconnect s h1)) h
                \<lparr>i_targetUserId = sock_userId sk1, i_candidate = cand\<rparr> now =
              (fst (disconnect s h1), []))"
proof -
  let ?ps = "set_delete (participants rm) (sock_userId sk1)"
  let ?s' = "fst (disconnect s h1)"
  from assms(3) obtain a where
    a: "map_get (rooms s) (sock_roomId sk1) = Some a" "map_get (objects s) a = Some rm"
    by (auto simp: rooms_get_def split: option.splits)
  have eq: "?s' =
      s\<lparr>rooms := (if set_size ?ps = 0 then map_delete (rooms s) (sock_roomId sk1)
                   else rooms s),
        objects := map_set (objects s) a (rm\<lparr>participants := ?ps\<rparr>),
        userSockets := map_delete (userSockets s) (sock_userId sk1),
        sockets := map_delete (sockets s) h1\<rparr>"
    using assms(1,2) a by (simp add: disconnect_def Let_def)
  have unbound: "map_get (userSockets ?s') (sock_userId sk1) = None"
    by (simp add: eq map_get_delete_same)
  have gone: "sock_userId sk1 \<notin> set (participants rm')"
    if "rooms_get ?s' (sock_roomId sk1) = Some rm'" for rm'
    using that a
    by (auto simp: eq rooms_get_def map_get_delete_same map_get_set_same set_set_delete
        split: if_splits)
  have live: "map_has (sockets ?s') h2"
    using assms(5,6) by (simp add: eq map_has_def map_get_delete_other)
  have dropped:
    "offer ?s' h \<lparr>o_targetUserId = sock_userId sk1, o_sdp = sdp, o_type = ty\<rparr> now = (?s', []) \<and>
     answer ?s' h \<lparr>a_targetUserId = sock_userId sk1, a_sdp = sdp\<rparr> now = (?s', []) \<and>
     ice_candidate ?s' h \<lparr>i_targetUserId = sock_userId sk1, i_candidate = cand\<rparr> now = (?s', [])"
    for h sdp ty cand now
    using unbound by (simp add: offer_def answer_def ice_candidate_def split: option.splits)
  show ?thesis
    using unbound gone live dropped by blast
qed

theorem stale_disconnect_unbinds_witness:
  "map_get (sockets (run init rebind_run)) ''a'' \<noteq> None \<and>
   map (sock_userId \<circ> snd) (sockets (run init rebind_run)) = [Str ''u1'', Str ''u1''] \<and>
   userSockets (run init rebind_run) = [(Str ''u1'', ''b'')] \<and>
   map_has (sockets (run init rebind_run)) ''b'' \<and>
   userSockets (fst (disconnect (run init rebind_run) ''a'')) = [] \<and>
   map_get (userSockets (fst (disconnect (run init rebind_run) ''a''))) (Str ''u1'') = None \<and>
   rooms_get (fst (disconnect (run init rebind_run) ''a'')) demo_room = None \<and>
   map_has (sockets (fst (disconnect (run init rebind_run) ''a''))) ''b'' \<and>
   offer (fst (disconnect (run init rebind_run) ''a'')) ''b''
       \<lparr>o_targetUserId = Str ''u1'', o_sdp = Str ''S'', o_type = Str ''video''\<rparr> 5 =
     (fst (disconnect (run init rebind_run) ''a''), []) \<and>
   answer (fst (disconnect (run init rebind_run) ''a'')) ''b''
       \<lparr>a_targetUserId = Str ''u1'', a_sdp = Str ''S''\<rparr> 5 =
     (fst (disconnect (run init rebind_run) ''a''), []) \<and>
   ice_candidate (fst (disconnect (run init rebind_run) ''a'')) ''b''
       \<lparr>i_targetUserId = Str ''u1'', i_candidate = Str ''C''\<rparr> 5 =
     (fst (disconnect (run init rebind_run) ''a''), [])"
proof -
  let ?sk = "\<lparr>sock_userId = Str ''u1'', sock_userName = Str ''Alice'',
          sock_userAvatar = Str ''x'', sock_roomId = demo_room, sock_joined = [demo_room]\<rparr>"
  let ?rm = "\<lparr>room_id = demo_room, room_type = Str ''video'', creator = Str ''u1'',
        participants = [Str ''u1''], createdAt = 0, isActive = True\<rparr>"
  have a: "map_get (sockets (run init rebind_run)) ''a'' = Some ?sk"
    by (simp add: rebind_state)
  have b: "truthy (sock_roomId ?sk)" by (simp add: demo_room_def)
  have c: "rooms_get (run init rebind_run) (sock_roomId ?sk) = Some ?rm"
    by (simp add: rebind_state rooms_get_def)
  have d: "map_get (userSockets (run init rebind_run)) (sock_userId ?sk) = Some ''b''"
    by (simp add: rebind_state)
  have e: "''b'' \<noteq> ''a''" by simp
  have f: "map_has (sockets (run init rebind_run)) ''b''"
    by (simp add: rebind_state map_has_def)
  have g: "fst (disconnect (run init rebind_run) ''a'') =
      \<lparr>rooms = [], objects = [(0, ?rm\<lparr>participants := []\<rparr>)], userSockets = [],
       sockets = [(''b'', ?sk)], pending = []\<rparr>"
    by (simp add: rebind_state disconnect_def Let_def set_size_def demo_room_def)
  have h: "map (sock_userId \<circ> snd) (sockets (run init rebind_run)) = [Str ''u1'', Str ''u1'']"
    "userSockets (run init rebind_run) = [(Str ''u1'', ''b'')]"
    by (simp_all add: rebind_state)
  have i: "userSockets (fst (disconnect (run init rebind_run) ''a'')) = []"
    "rooms_get (fst (disconnect (run init rebind_run) ''a'')) demo_room = None"
    by (simp_all add: g rooms_get_def)
  from stale_disconnect_unbinds [OF a b c d e f]
  have "map_get (userSockets (fst (disconnect (run init rebind_run) ''a''))) (Str ''u1'') = None"
    and "map_has (sockets (fst (disconnect (run init rebind_run) ''a''))) ''b''"
    and "\<And>h sdp ty cand now.
      offer (fst (disconnect (run init rebind_run) ''a'')) h
          \<lparr>o_targetUserId = Str ''u1'', o_sdp = sdp, o_type = ty\<rparr> now =
        (fst (disconnect (run init rebind_run) ''a''), []) \<and>
      answer (fst (disconnect (run init rebind_run) ''a'')) h
          \<lparr>a_targetUserId = Str ''u1'', a_sdp = sdp\<rparr> now =
        (fst (disconnect (run init rebind_run) ''a''), []) \<and>
      ice_candidate (fst (disconnect (run init rebind_run) ''a'')) h
          \<lparr>i_targetUserId = Str ''u1'', i_candidate = cand\<rparr> now =
        (fst (disconnect (run init rebind_run) ''a''), [])"
    by simp_all
  then show ?thesis
    using a f h i by simp
qed

section \<open>Roster entries\<close>

lemma resume_roster:
  assumes "map_get (objects s) (pj_room p) = Some rm"
  shows "\<exists>roster flag.
           hd (snd (join_room_resume s p)) =
             (ToSocket (pj_socket p),
              RoomJoined (j_roomId (pj_data p)) (room_type rm) roster flag) \<and>
           map p_id roster = set_add (participants rm) (j_userId (pj_data p)) \<and>
           (\<forall>e\<in>set roster.
              p_isOnline e \<and>
              (p_id e = j_userId (pj_data p) \<longrightarrow>
                 p_name e = j_userName (pj_data p) \<and> p_avatar e = j_userAvatar (pj_data p)) \<and>
              (p_id e \<noteq> j_userId (pj_data p) \<longrightarrow>
                 p_name e = Str ''Participant'' \<and> p_avatar e = Str avatar_placeholder))"
proof -
  let ?d = "pj_data p"
  let ?roster = "map (roster_entry (j_userId ?d) (j_userName ?d) (j_userAvatar ?d))
      (set_add (participants rm) (j_userId ?d))"
  have "hd (snd (join_room_resume s p)) =
      (ToSocket (pj_socket p),
       RoomJoined (j_roomId ?d) (room_type rm) ?roster (creator rm = j_userId ?d))"
    using assms by (simp add: join_room_resume_def Let_def)
  moreover have "map p_id ?roster = set_add (participants rm) (j_userId ?d)"
    by (simp add: roster_entry_def comp_def)
  moreover have "\<forall>e\<in>set ?roster.
      p_isOnline e \<and>
      (p_id e = j_userId ?d \<longrightarrow> p_name e = j_userName ?d \<and> p_avatar e = j_userAvatar ?d) \<and>
      (p_id e \<noteq> j_userId ?d \<longrightarrow>
         p_name e = Str ''Participant'' \<and> p_avatar e = Str avatar_placeholder)"
    by (auto simp: roster_entry_def)
  ultimately show ?thesis by blast
qed

text \<open>
  C10. The roster of the \<open>room-joined\<close> message lists the participants of the room
  after the joiner was added, each with \<open>isOnline\<close> true. The entry of the joiner's own
  user id carries the \<open>userName\<close> and \<open>userAvatar\<close> of the request; every other entry
  carries the name "Participant" and the placeholder avatar, whatever that participant
  supplied when joining. This holds of every continuation of a \<open>join-room\<close>, for the
  room object as it is when the continuation runs; and so of a join on a room of the
  registry with fewer than four participants whose continuation runs at once.
\<close>

theorem roster_placeholders:
  "(\<forall>rm. map_get (objects s) (pj_room p) = Some rm \<longrightarrow>
      (\<exists>roster flag.
         hd (snd (join_room_resume s p)) =
           (ToSocket (pj_socket p),
            RoomJoined (j_roomId (pj_data p)) (room_type rm) roster flag) \<and>
         map p_id roster = set_add (participants rm) (j_userId (pj_data p)) \<and>
         (\<forall>e\<in>set roster.
            p_isOnline e \<and>
            (p_id e = j_userId (pj_data p) \<longrightarrow>
               p_name e = j_userName (pj_data p) \<and> p_avatar e = j_userAvatar (pj_data p)) \<and>
            (p_id e \<noteq> j_userId (pj_data p) \<longrightarrow>
               p_name e = Str ''Participant'' \<and> p_avatar e = Str avatar_placeholder)))) \<and>
   (\<forall>sk rm. map_get (sockets s) h = Some sk \<and> rooms_get s (j_roomId d) = Some rm \<and>
        set_size (participants rm) < 4 \<longrightarrow>
      (\<exists>roster flag.
         hd (snd (resume_join (fst (join_room s h d)) (length (pending s)))) =
           (ToSocket h, RoomJoined (j_roomId d) (room_type rm) roster flag) \<and>
         map p_id roster = set_add (participants rm) (j_userId d) \<and>
         (\<forall>e\<in>set roster.
            p_isOnline e \<and>
            (p_id e = j_userId d \<longrightarrow>
               p_name e = j_userName d \<and> p_avatar e = j_userAvatar d) \<and>
            (p_id e \<noteq> j_userId d \<longrightarrow>
               p_name e = Str ''Participant'' \<and> p_avatar e = Str avatar_placeholder))))"
proof (intro conjI allI impI)
  fix rm
  assume "map_get (objects s) (pj_room p) = Some rm"
  then show "\<exists>roster flag.
         hd (snd (join_room_resume s p)) =
           (ToSocket (pj_socket p),
            RoomJoined (j_roomId (pj_data p)) (room_type rm) roster flag) \<and>
         map p_id roster = set_add (participants rm) (j_userId (pj_data p)) \<and>
         (\<forall>e\<in>set roster.
            p_isOnline e \<and>
            (p_id e = j_userId (pj_data p) \<longrightarrow>
               p_name e = j_userName (pj_data p) \<and> p_avatar e = j_userAvatar (pj_data p)) \<and>
            (p_id e \<noteq> j_userId (pj_data p) \<longrightarrow>
               p_name e = Str ''Participant'' \<and> p_avatar e = Str avatar_placeholder))"
    by (rule resume_roster)
next
  fix sk rm
  assume asm: "map_get (sockets s) h = Some sk \<and> rooms_get s (j_roomId d) = Some rm \<and>
        set_size (participants rm) < 4"
  then obtain a where
    a: "map_get (rooms s) (j_roomId d) = Some a" "map_get (objects s) a = Some rm"
    by (auto simp: rooms_get_def split: option.splits)
  let ?s1 = "s\<lparr>sockets := map_set (sockets s) h
          (sk\<lparr>sock_joined := set_add (sock_joined sk) (j_roomId d)\<rparr>)\<rparr>"
  let ?p = "\<lparr>pj_socket = h, pj_data = d, pj_room = a\<rparr>"
  have eq: "resume_join (fst (join_room s h d)) (length (pending s)) = join_room_resume ?s1 ?p"
    using asm a by (simp add: join_then_resume)
  have "map_get (objects ?s1) (pj_room ?p) = Some rm"
    using a by simp
  from resume_roster [OF this]
  show "\<exists>roster flag.
         hd (snd (resume_join (fst (join_room s h d)) (length (pending s)))) =
           (ToSocket h, RoomJoined (j_roomId d) (room_type rm) roster flag) \<and>
         map p_id roster = set_add (participants rm) (j_userId d) \<and>
         (\<forall>e\<in>set roster.
            p_isOnline e \<and>
            (p_id e = j_userId d \<longrightarrow>
               p_name e = j_userName d \<and> p_avatar e = j_userAvatar d) \<and>
            (p_id e \<noteq> j_userId d \<longrightarrow>
               p_name e = Str ''Participant'' \<and> p_avatar e = Str avatar_placeholder))"
    by (simp add: eq)
qed

theorem roster_placeholders_witness:
  "map_get (sockets (run init solo_run)) ''b'' = Some new_socket \<and>
   map_option participants (rooms_get (run init solo_run) demo_room) = Some [Str ''u1''] \<and>
   map (\<lambda>e. (sock_userId (snd e), sock_userName (snd e), sock_userAvatar (snd e)))
     (sockets (run init solo_run)) =
     [(Str ''u1'', Str ''Alice'', Str ''x''), (Undefined, Undefined, Undefined)] \<and>
   pending (run init solo_run) = [] \<and>
   hd (snd (resume_join (fst (join_room (run init solo_run) ''b''
         \<lparr>j_roomId = demo_room, j_userId = Str ''u2'', j_userName = Str ''Bob'',
          j_userAvatar = Str ''y''\<rparr>)) 0)) =
     (ToSocket ''b'', RoomJoined demo_room (Str ''video'')
        [\<lparr>p_id = Str ''u1'', p_name = Str ''Participant'', p_avatar = Str avatar_placeholder,
          p_isOnline = True\<rparr>,
         \<lparr>p_id = Str ''u2'', p_name = Str ''Bob'', p_avatar = Str ''y'', p_isOnline = True\<rparr>]
        False)"
proof -
  let ?d = "\<lparr>j_roomId = demo_room, j_userId = Str ''u2'', j_userName = Str ''Bob'',
             j_userAvatar = Str ''y''\<rparr>"
  let ?rm = "\<lparr>room_id = demo_room, room_type = Str ''video'', creator = Str ''u1'',
        participants = [Str ''u1''], createdAt = 0, isActive = True\<rparr>"
  have a: "map_get (sockets (run init solo_run)) ''b'' = Some new_socket"
    by (simp add: solo_state)
  have b: "rooms_get (run init solo_run) (j_roomId ?d) = Some ?rm"
    by (simp add: solo_state rooms_get_def)
  have c: "set_size (participants ?rm) < 4"
    by (simp add: set_size_def)
  have l: "length (pending (run init solo_run)) = 0"
    by (simp add: solo_state)
  note inst = roster_placeholders [of "run init solo_run"
      "\<lparr>pj_socket = ''b'', pj_data = ?d, pj_room = 0\<rparr>" "''b''" ?d,
      THEN conjunct2, rule_format, of new_socket ?rm]
  from inst [OF conjI [OF a conjI [OF b c]]] obtain roster flag where
    r: "hd (snd (resume_join (fst (join_room (run init solo_run) ''b'' ?d)) 0)) =
          (ToSocket ''b'', RoomJoined demo_room (Str ''video'') roster flag)"
      "map p_id roster = set_add [Str ''u1''] (Str ''u2'')"
    by (auto simp: l)
  have e: "hd (snd (resume_join (fst (join_room (run init solo_run) ''b'' ?d)) 0)) =
      (ToSocket ''b'', RoomJoined demo_room (Str ''video'')
        [\<lparr>p_id = Str ''u1'', p_name = Str ''Participant'', p_avatar = Str avatar_placeholder,
          p_isOnline = True\<rparr>,
         \<lparr>p_id = Str ''u2'', p_name = Str ''Bob'', p_avatar = Str ''y'', p_isOnline = True\<rparr>]
        False)"
    by (simp add: solo_state join_room_def resume_join_def join_room_resume_def Let_def
        set_size_def set_add_def roster_entry_def demo_room_def new_socket_def)
  show ?thesis
    using r a e by (simp add: solo_state new_socket_def rooms_get_def)
qed

end
